theory Spec2Isabelle
  imports Complex_Main
begin

section \<open>Data model of \<open>src/App.tsx\<close>\<close>

text \<open>
  The TypeScript unions \<open>ElementType\<close> and \<open>GameView\<close> are datatypes, the interfaces
  \<open>Profile\<close> and \<open>MatchResult\<close> are records. A JavaScript \<open>number\<close> holding a counter
  or a millisecond timestamp is an \<open>int\<close>; a value returned by \<open>Math.random()\<close> is a
  \<open>real\<close>. \<open>null\<close> and \<open>undefined\<close> are \<open>None\<close>. Arithmetic is exact: the rounding
  of a product such as \<open>Math.random() * 100\<close> to a double before \<open>Math.floor\<close> is not
  modelled, so a drawn lucky number or fortune can differ by one from the code's at a
  value of \<open>Math.random()\<close> whose product lies next to an integer.
\<close>

datatype ElementType = Fire | Water | Air | Earth

datatype GameView = connect | create | dashboard | match | battle

record Profile =
  element :: ElementType
  luckyNumber :: int
  xp :: int
  level :: int
  energy :: int
  winStreak :: int
  lastFortuneTime :: int
  exists :: bool

text \<open>
  \<open>player2Element\<close> is read from \<open>ELEMENTS\<close> at a computed index; an index outside the
  array gives \<open>undefined\<close> in JavaScript, which is \<open>None\<close> here.
\<close>

record MatchResult =
  winner :: string
  timestamp :: int
  player1Element :: ElementType
  player2Element :: "ElementType option"

definition ELEMENTS :: "ElementType list" where
  "ELEMENTS = [Fire, Water, Air, Earth]"

definition ELEMENTS_at :: "int \<Rightarrow> ElementType option" where
  "ELEMENTS_at i = (if 0 \<le> i \<and> i < int (length ELEMENTS) then Some (ELEMENTS ! nat i) else None)"

fun ELEMENTS_indexOf :: "ElementType \<Rightarrow> nat" where
  "ELEMENTS_indexOf Fire = 0"
| "ELEMENTS_indexOf Water = 1"
| "ELEMENTS_indexOf Air = 2"
| "ELEMENTS_indexOf Earth = 3"

subsection \<open>String helpers of the JavaScript library\<close>

definition hexDigit :: "nat \<Rightarrow> char" where
  "hexDigit n = ''0123456789abcdef'' ! (n mod 16)"

fun toString16 :: "nat \<Rightarrow> string" where
  "toString16 n = (if n < 16 then [hexDigit n] else toString16 (n div 16) @ [hexDigit n])"

definition padStart :: "nat \<Rightarrow> char \<Rightarrow> string \<Rightarrow> string" where
  "padStart n c str = replicate (n - length str) c @ str"

definition slice_from :: "nat \<Rightarrow> string \<Rightarrow> string" where
  "slice_from n str = drop n str"

text \<open>The regular expression \<open>/^0x[a-fA-F0-9]{40}$/\<close> used by \<open>handleMatch\<close> and by the
  match button.\<close>

definition isHexChar :: "char \<Rightarrow> bool" where
  "isHexChar c = (c \<in> set ''abcdefABCDEF0123456789'')"

definition matchesAddress :: "string \<Rightarrow> bool" where
  "matchesAddress str =
     (length str = 42 \<and> take 2 str = ''0x'' \<and> list_all isHexChar (drop 2 str))"

section \<open>The environment of one call\<close>

text \<open>
  What an operation reads from outside during one call: whether \<open>window.ethereum\<close> is
  present, whether the promise of \<open>eth_sendTransaction\<close> rejects, whether
  \<open>localStorage.setItem\<close> throws, the values of the first and second call of
  \<open>Math.random()\<close>, and the value of \<open>Date.now()\<close>. A request whose promise never
  settles leaves the operation suspended; the operations below are the calls that
  return.
\<close>

record Env =
  ethereum :: bool
  requestFails :: bool
  setItemFails :: bool
  random1 :: real
  random2 :: real
  now :: int

section \<open>The hook \<open>useContract\<close>\<close>

text \<open>
  The state of the hook together with the two objects it writes to: \<open>localStorage\<close>
  (a map from keys to the stored profile; \<open>JSON.stringify\<close> followed by \<open>JSON.parse\<close>
  is the identity on a flat profile record), the \<open>data\<close> fields of the transactions
  handed to \<open>eth_sendTransaction\<close>, in order, and the messages written by
  \<open>console.error\<close>, in order. \<open>address\<close> is the argument of the hook.
\<close>

record Contract =
  address :: "string option"
  profile :: "Profile option"
  isLoading :: bool
  txPending :: bool
  lastMatchResult :: "MatchResult option"
  localStorage :: "string \<rightharpoonup> Profile"
  sent :: "string list"
  errors :: "string list"

text \<open>\<open>!address\<close>: \<open>null\<close> and the empty string are both falsy.\<close>

definition no_address :: "string option \<Rightarrow> bool" where
  "no_address a = (case a of None \<Rightarrow> True | Some str \<Rightarrow> str = [])"

definition storage_key :: "string \<Rightarrow> string" where
  "storage_key a = ''astro_profile_'' @ a"

definition js_floor_div100 :: "int \<Rightarrow> int" where
  "js_floor_div100 n = \<lfloor>real_of_int n / 100\<rfloor>"

text \<open>
  \<open>fetchProfile\<close> suspends for a second after \<open>setIsLoading(true)\<close>. The part before
  the suspension and the part after it are two functions; the second one reads the store
  under the address \<open>a\<close> that the call captured.
\<close>

definition fetchProfile_start :: "'a Contract_scheme \<Rightarrow> 'a Contract_scheme" where
  "fetchProfile_start s = (if no_address (address s) then s else s\<lparr>isLoading := True\<rparr>)"

definition fetchProfile_resume :: "string \<Rightarrow> 'a Contract_scheme \<Rightarrow> 'a Contract_scheme" where
  "fetchProfile_resume a s =
     s\<lparr>profile := localStorage s (storage_key a), isLoading := False\<rparr>"

definition fetchProfile :: "'a Contract_scheme \<Rightarrow> 'a Contract_scheme" where
  "fetchProfile s =
     (case address s of
        None \<Rightarrow> s
      | Some a \<Rightarrow> if a = [] then s else fetchProfile_resume a (fetchProfile_start s))"

definition createProfile :: "Env \<Rightarrow> ElementType \<Rightarrow> 'a Contract_scheme \<Rightarrow> 'a Contract_scheme" where
  "createProfile env el s =
     (case address s of
        None \<Rightarrow> s
      | Some a \<Rightarrow>
          if a = [] then s
          else
            let s1 = s\<lparr>txPending := True\<rparr>;
                data = ''0x5c28a3c2'' @ padStart 64 CHR ''0'' (toString16 (ELEMENTS_indexOf el));
                s2 = (if ethereum env then s1\<lparr>sent := sent s1 @ [data]\<rparr> else s1);
                s3 =
                  (if ethereum env \<and> requestFails env
                   then s2\<lparr>errors := errors s2 @ [''Failed to create profile:'']\<rparr>
                   else
                     let newProfile =
                           \<lparr>element = el,
                            luckyNumber = \<lfloor>random1 env * 100\<rfloor> + 1,
                            xp = 0,
                            level = 1,
                            energy = 100,
                            winStreak = 0,
                            lastFortuneTime = 0,
                            exists = True\<rparr>;
                         s4 = s2\<lparr>profile := Some newProfile\<rparr>
                     in if setItemFails env
                        then s4\<lparr>errors := errors s4 @ [''Failed to create profile:'']\<rparr>
                        else s4\<lparr>localStorage := (localStorage s4)(storage_key a \<mapsto> newProfile)\<rparr>)
            in s3\<lparr>txPending := False\<rparr>)"

definition claimDailyFortune :: "Env \<Rightarrow> 'a Contract_scheme \<Rightarrow> 'a Contract_scheme" where
  "claimDailyFortune env s =
     (case address s of
        None \<Rightarrow> s
      | Some a \<Rightarrow>
          if a = [] then s
          else
            (case profile s of
               None \<Rightarrow> s
             | Some p \<Rightarrow>
                 let s1 = s\<lparr>txPending := True\<rparr>;
                     s2 = (if ethereum env then s1\<lparr>sent := sent s1 @ [''0x7c2f6e7d'']\<rparr> else s1);
                     s3 =
                       (if ethereum env \<and> requestFails env
                        then s2\<lparr>errors := errors s2 @ [''Failed to claim fortune:'']\<rparr>
                        else
                          let fortune = \<lfloor>random1 env * 50\<rfloor> + 10;
                              updatedProfile =
                                p\<lparr>xp := xp p + fortune,
                                  level := js_floor_div100 (xp p + fortune) + 1,
                                  lastFortuneTime := now env\<rparr>;
                              s4 = s2\<lparr>profile := Some updatedProfile\<rparr>
                          in if setItemFails env
                             then s4\<lparr>errors := errors s4 @ [''Failed to claim fortune:'']\<rparr>
                             else s4\<lparr>localStorage :=
                                       (localStorage s4)(storage_key a \<mapsto> updatedProfile)\<rparr>)
                 in s3\<lparr>txPending := False\<rparr>))"

definition initiateMatch :: "Env \<Rightarrow> string \<Rightarrow> 'a Contract_scheme \<Rightarrow> 'a Contract_scheme" where
  "initiateMatch env opponent s =
     (case address s of
        None \<Rightarrow> s
      | Some a \<Rightarrow>
          if a = [] then s
          else
            (case profile s of
               None \<Rightarrow> s
             | Some p \<Rightarrow>
                 let s1 = s\<lparr>txPending := True\<rparr>;
                     paddedOpponent = padStart 64 CHR ''0'' (slice_from 2 opponent);
                     data = ''0x1a2b3c4d'' @ paddedOpponent;
                     s2 = (if ethereum env then s1\<lparr>sent := sent s1 @ [data]\<rparr> else s1);
                     s3 =
                       (if ethereum env \<and> requestFails env
                        then s2\<lparr>errors := errors s2 @ [''Failed to initiate match:'']\<rparr>
                        else
                          let opponentElement = ELEMENTS_at \<lfloor>random1 env * 4\<rfloor>;
                              userWins = (random2 env > 1 / 2);
                              xpGained = (if userWins then 25 else 5);
                              result =
                                \<lparr>winner = (if userWins then a else opponent),
                                 timestamp = now env,
                                 player1Element = element p,
                                 player2Element = opponentElement\<rparr>;
                              s4 = s2\<lparr>lastMatchResult := Some result\<rparr>;
                              updatedProfile =
                                p\<lparr>xp := xp p + xpGained,
                                  level := js_floor_div100 (xp p + xpGained) + 1,
                                  winStreak := (if userWins then winStreak p + 1 else 0),
                                  energy := max 0 (energy p - 10)\<rparr>;
                              s5 = s4\<lparr>profile := Some updatedProfile\<rparr>
                          in if setItemFails env
                             then s5\<lparr>errors := errors s5 @ [''Failed to initiate match:'']\<rparr>
                             else s5\<lparr>localStorage :=
                                       (localStorage s5)(storage_key a \<mapsto> updatedProfile)\<rparr>)
                 in s3\<lparr>txPending := False\<rparr>))"

text \<open>\<open>canClaimFortune\<close>, computed at every render from \<open>Date.now()\<close>.\<close>

definition canClaimFortune :: "int \<Rightarrow> Profile option \<Rightarrow> bool" where
  "canClaimFortune t po =
     (case po of None \<Rightarrow> False | Some p \<Rightarrow> t - lastFortuneTime p > 24 * 60 * 60 * 1000)"

definition timeUntilFortune :: "int \<Rightarrow> Profile option \<Rightarrow> int" where
  "timeUntilFortune t po =
     (case po of None \<Rightarrow> 0 | Some p \<Rightarrow> max 0 (24 * 60 * 60 * 1000 - (t - lastFortuneTime p)))"

section \<open>The component \<open>App\<close>\<close>

text \<open>
  The state of \<open>App\<close> extends the state of the hook by the four \<open>useState\<close> cells of
  the component. \<open>matchElement\<close> starts as \<open>undefined\<close>.
\<close>

record App = Contract +
  view :: GameView
  selectedElement :: "ElementType option"
  opponentAddress :: string
  matchElement :: "ElementType option"

definition initial :: "(string \<rightharpoonup> Profile) \<Rightarrow> App" where
  "initial store =
     \<lparr>address = None, profile = None, isLoading = False, txPending = False,
      lastMatchResult = None, localStorage = store, sent = [], errors = [],
      view = connect, selectedElement = None, opponentAddress = [], matchElement = None\<rparr>"

text \<open>\<open>profile?.exists\<close>: \<open>undefined\<close>, hence falsy, when there is no profile.\<close>

definition profile_exists :: "Profile option \<Rightarrow> bool" where
  "profile_exists po = (case po of None \<Rightarrow> False | Some p \<Rightarrow> exists p)"

text \<open>The body of the effect that determines the view, run after a render.\<close>

definition viewEffect :: "App \<Rightarrow> App" where
  "viewEffect s =
     (if no_address (address s) then s\<lparr>view := connect\<rparr>
      else if isLoading s then s\<lparr>view := connect\<rparr>
      else if \<not> profile_exists (profile s) then s\<lparr>view := create\<rparr>
      else
        (case lastMatchResult s of
           Some r \<Rightarrow>
             if view s = match then s\<lparr>matchElement := player2Element r, view := battle\<rparr>
             else if view s = connect \<or> view s = create then s\<lparr>view := dashboard\<rparr>
             else s
         | None \<Rightarrow>
             if view s = connect \<or> view s = create then s\<lparr>view := dashboard\<rparr>
             else s))"

definition handleCreateProfile :: "Env \<Rightarrow> App \<Rightarrow> App" where
  "handleCreateProfile env s =
     (case selectedElement s of None \<Rightarrow> s | Some el \<Rightarrow> createProfile env el s)"

definition handleMatch :: "Env \<Rightarrow> App \<Rightarrow> App" where
  "handleMatch env s =
     (if opponentAddress s \<noteq> [] \<and> matchesAddress (opponentAddress s)
      then initiateMatch env (opponentAddress s) s
      else s)"

text \<open>
  The buttons. A button that is not rendered in the current view, or that carries the
  attribute \<open>disabled\<close>, delivers no click, so its handler does not run. The Daily
  Fortune button is disabled from \<open>canClaimFortune\<close> as computed at the render, at time
  \<open>t\<close>.
\<close>

definition createButton_click :: "Env \<Rightarrow> App \<Rightarrow> App" where
  "createButton_click env s =
     (if view s = create \<and> \<not> (selectedElement s = None \<or> txPending s)
      then handleCreateProfile env s
      else s)"

definition fortuneButton_click :: "int \<Rightarrow> Env \<Rightarrow> App \<Rightarrow> App" where
  "fortuneButton_click t env s =
     (if view s = dashboard \<and> profile s \<noteq> None
         \<and> \<not> (\<not> canClaimFortune t (profile s) \<or> txPending s)
      then claimDailyFortune env s
      else s)"

definition matchButton_click :: "Env \<Rightarrow> App \<Rightarrow> App" where
  "matchButton_click env s =
     (case profile s of
        None \<Rightarrow> s
      | Some p \<Rightarrow>
          if view s = dashboard
             \<and> \<not> (\<not> matchesAddress (opponentAddress s) \<or> txPending s \<or> energy p < 10)
          then handleMatch env s
          else s)"

definition continueButton_click :: "App \<Rightarrow> App" where
  "continueButton_click s =
     (if view s = battle \<and> lastMatchResult s \<noteq> None \<and> profile s \<noteq> None
      then s\<lparr>view := dashboard, opponentAddress := []\<rparr>
      else s)"

definition elementButton_click :: "ElementType \<Rightarrow> App \<Rightarrow> App" where
  "elementButton_click el s = (if view s = create then s\<lparr>selectedElement := Some el\<rparr> else s)"

definition opponentInput_change :: "string \<Rightarrow> App \<Rightarrow> App" where
  "opponentInput_change str s =
     (if view s = dashboard \<and> profile s \<noteq> None then s\<lparr>opponentAddress := str\<rparr> else s)"

text \<open>
  \<open>useWallet\<close>: \<open>connect\<close> stores \<open>accounts[0]\<close> (possibly \<open>undefined\<close>) as the address,
  or leaves it when the request fails; \<open>disconnect\<close> clears it. The chain id plays no part
  in the engine and is left out.
\<close>

definition wallet_connect :: "string option option \<Rightarrow> App \<Rightarrow> App" where
  "wallet_connect accounts0 s =
     (case accounts0 of None \<Rightarrow> s | Some a \<Rightarrow> s\<lparr>address := a\<rparr>)"

definition wallet_disconnect :: "App \<Rightarrow> App" where
  "wallet_disconnect s = s\<lparr>address := None\<rparr>"

text \<open>
  The events of the application. Each one runs an event handler or an effect to
  completion; \<open>FetchProfileResume a\<close> is the continuation of a \<open>fetchProfile\<close> call that
  captured the address \<open>a\<close>. \<open>run\<close> applies a sequence of events, the first one first.
\<close>

datatype Event =
    WalletConnect "string option option"
  | WalletDisconnect
  | FetchProfileStart
  | FetchProfileResume string
  | ViewEffect
  | ElementButtonClick ElementType
  | CreateButtonClick Env
  | FortuneButtonClick int Env
  | OpponentInputChange string
  | MatchButtonClick Env
  | ContinueButtonClick

fun dispatch :: "Event \<Rightarrow> App \<Rightarrow> App" where
  "dispatch (WalletConnect accounts0) s = wallet_connect accounts0 s"
| "dispatch WalletDisconnect s = wallet_disconnect s"
| "dispatch FetchProfileStart s = fetchProfile_start s"
| "dispatch (FetchProfileResume a) s = fetchProfile_resume a s"
| "dispatch ViewEffect s = viewEffect s"
| "dispatch (ElementButtonClick el) s = elementButton_click el s"
| "dispatch (CreateButtonClick env) s = createButton_click env s"
| "dispatch (FortuneButtonClick t env) s = fortuneButton_click t env s"
| "dispatch (OpponentInputChange str) s = opponentInput_change str s"
| "dispatch (MatchButtonClick env) s = matchButton_click env s"
| "dispatch ContinueButtonClick s = continueButton_click s"

fun run :: "Event list \<Rightarrow> App \<Rightarrow> App" where
  "run [] s = s"
| "run (e # es) s = run es (dispatch e s)"

text \<open>Consecutive calls of \<open>initiateMatch\<close>: the states after each call, in order.\<close>

fun initiateMatches :: "(Env \<times> string) list \<Rightarrow> 'a Contract_scheme \<Rightarrow> 'a Contract_scheme list" where
  "initiateMatches [] s = []"
| "initiateMatches ((env, opponent) # calls) s =
     initiateMatch env opponent s # initiateMatches calls (initiateMatch env opponent s)"

definition energies :: "'a Contract_scheme list \<Rightarrow> int list" where
  "energies ss = List.map_filter (\<lambda>s. map_option energy (profile s)) ss"

section \<open>Concrete inputs\<close>

text \<open>
  A call without a wallet provider, and a connected player with a profile on the
  dashboard, used to evaluate the operations.
\<close>

definition env_offline :: Env where
  "env_offline = \<lparr>ethereum = False, requestFails = False, setItemFails = False,
                   random1 = 3 / 4, random2 = 1 / 4, now = 90000000\<rparr>"

definition veteran :: Profile where
  "veteran = \<lparr>element = Water, luckyNumber = 7, xp = 90, level = 1, energy = 50,
               winStreak = 3, lastFortuneTime = 89999000, exists = True\<rparr>"

definition veteran_app :: App where
  "veteran_app =
     (initial Map.empty)\<lparr>address := Some ''0xabc'', profile := Some veteran, view := dashboard\<rparr>"

definition newcomer_app :: App where
  "newcomer_app = (initial Map.empty)\<lparr>address := Some ''0xabc'', view := create, selectedElement := Some Fire\<rparr>"

text \<open>
  A session: the player connects, the profile is fetched, the player picks an element,
  creates a profile, enters an opponent and plays a match; the view effect runs after
  every change.
\<close>

definition session :: "Event list" where
  "session =
     [WalletConnect (Some (Some ''0xabc'')), FetchProfileStart, ViewEffect,
      FetchProfileResume ''0xabc'', ViewEffect,
      ElementButtonClick Fire, CreateButtonClick env_offline, ViewEffect,
      OpponentInputChange ''0x1111111111111111111111111111111111111111'',
      MatchButtonClick env_offline, ViewEffect]"

section \<open>Auxiliary facts\<close>

lemma js_floor_div100_eq: "js_floor_div100 n = n div 100"
  unfolding js_floor_div100_def
  using floor_divide_of_int_eq [of n 100, where ?'a = real] by simp

lemmas example_defs = env_offline_def veteran_def veteran_app_def initial_def

lemma view_createProfile: "view (createProfile env el s) = view s"
  by (simp add: createProfile_def Let_def split: option.splits)

lemma view_claimDailyFortune: "view (claimDailyFortune env s) = view s"
  by (simp add: claimDailyFortune_def Let_def split: option.splits)

lemma view_initiateMatch: "view (initiateMatch env opponent s) = view s"
  by (simp add: initiateMatch_def Let_def split: option.splits)

lemma dispatch_keeps_view_set:
  assumes "view s \<in> {connect, create, dashboard}"
  shows "view (dispatch e s) \<in> {connect, create, dashboard}"
proof (cases e)
  case (WalletConnect accounts0)
  with assms show ?thesis by (auto simp add: wallet_connect_def split: option.splits)
next
  case WalletDisconnect
  with assms show ?thesis by (auto simp add: wallet_disconnect_def)
next
  case FetchProfileStart
  with assms show ?thesis by (auto simp add: fetchProfile_start_def)
next
  case (FetchProfileResume a)
  with assms show ?thesis by (auto simp add: fetchProfile_resume_def)
next
  case ViewEffect
  with assms show ?thesis by (auto simp add: viewEffect_def split: option.splits)
next
  case (ElementButtonClick el)
  with assms show ?thesis by (auto simp add: elementButton_click_def)
next
  case (CreateButtonClick env)
  with assms show ?thesis
    by (auto simp add: createButton_click_def handleCreateProfile_def view_createProfile
        split: option.splits)
next
  case (FortuneButtonClick t env)
  with assms show ?thesis by (auto simp add: fortuneButton_click_def view_claimDailyFortune)
next
  case (OpponentInputChange str)
  with assms show ?thesis by (auto simp add: opponentInput_change_def)
next
  case (MatchButtonClick env)
  with assms show ?thesis
    by (auto simp add: matchButton_click_def handleMatch_def view_initiateMatch
        split: option.splits)
next
  case ContinueButtonClick
  with assms show ?thesis by (auto simp add: continueButton_click_def)
qed

lemma dispatch_never_assigns_match:
  assumes "view s \<noteq> match"
  shows "view (dispatch e s) \<noteq> match"
proof (cases e)
  case ViewEffect
  with assms show ?thesis by (auto simp add: viewEffect_def split: option.splits)
next
  case (CreateButtonClick env)
  with assms show ?thesis
    by (auto simp add: createButton_click_def handleCreateProfile_def view_createProfile
        split: option.splits)
next
  case (MatchButtonClick env)
  with assms show ?thesis
    by (auto simp add: matchButton_click_def handleMatch_def view_initiateMatch
        split: option.splits)
qed (use assms in \<open>auto simp add: wallet_connect_def wallet_disconnect_def
      fetchProfile_start_def fetchProfile_resume_def elementButton_click_def
      fortuneButton_click_def view_claimDailyFortune opponentInput_change_def
      continueButton_click_def split: option.splits\<close>)

lemma run_keeps_view_set:
  "view s \<in> {connect, create, dashboard} \<Longrightarrow> view (run es s) \<in> {connect, create, dashboard}"
proof (induction es arbitrary: s)
  case Nil
  then show ?case by simp
next
  case (Cons e es)
  from Cons.prems have "view (dispatch e s) \<in> {connect, create, dashboard}"
    by (rule dispatch_keeps_view_set)
  then show ?case using Cons.IH by simp
qed

lemma session_trace:
  "view (run session (initial Map.empty)) = dashboard"
  "lastMatchResult (run session (initial Map.empty)) =
     Some \<lparr>winner = ''0x1111111111111111111111111111111111111111'', timestamp = 90000000,
           player1Element = Fire, player2Element = Some Earth\<rparr>"
  by (simp_all add: session_def env_offline_def initial_def wallet_connect_def
      fetchProfile_start_def fetchProfile_resume_def viewEffect_def elementButton_click_def
      createButton_click_def handleCreateProfile_def createProfile_def opponentInput_change_def
      matchButton_click_def handleMatch_def initiateMatch_def matchesAddress_def isHexChar_def
      no_address_def profile_exists_def storage_key_def ELEMENTS_at_def ELEMENTS_def Let_def)

lemma profile_createProfile:
  "profile (createProfile env el s) =
     (if no_address (address s) \<or> (ethereum env \<and> requestFails env) then profile s
      else Some \<lparr>element = el, luckyNumber = \<lfloor>random1 env * 100\<rfloor> + 1, xp = 0, level = 1,
                 energy = 100, winStreak = 0, lastFortuneTime = 0, exists = True\<rparr>)"
  by (simp add: createProfile_def Let_def no_address_def split: option.splits)

lemma profile_claimDailyFortune:
  "profile (claimDailyFortune env s) =
     (case profile s of
        None \<Rightarrow> None
      | Some p \<Rightarrow>
          if no_address (address s) \<or> (ethereum env \<and> requestFails env) then Some p
          else Some (p\<lparr>xp := xp p + (\<lfloor>random1 env * 50\<rfloor> + 10),
                       level := (xp p + (\<lfloor>random1 env * 50\<rfloor> + 10)) div 100 + 1,
                       lastFortuneTime := now env\<rparr>))"
  by (simp add: claimDailyFortune_def Let_def no_address_def js_floor_div100_eq
      split: option.splits)

lemma profile_initiateMatch:
  "profile (initiateMatch env opponent s) =
     (case profile s of
        None \<Rightarrow> None
      | Some p \<Rightarrow>
          if no_address (address s) \<or> (ethereum env \<and> requestFails env) then Some p
          else Some (p\<lparr>xp := xp p + (if random2 env > 1 / 2 then 25 else 5),
                       level := (xp p + (if random2 env > 1 / 2 then 25 else 5)) div 100 + 1,
                       winStreak := (if random2 env > 1 / 2 then winStreak p + 1 else 0),
                       energy := max 0 (energy p - 10)\<rparr>))"
  by (simp add: initiateMatch_def Let_def no_address_def js_floor_div100_eq
      split: option.splits)

lemma address_initiateMatch: "address (initiateMatch env opponent s) = address s"
  by (simp add: initiateMatch_def Let_def split: option.splits)

lemma energies_Cons:
  "profile s = Some p \<Longrightarrow> energies (s # ss) = energy p # energies ss"
  by (simp add: energies_def map_filter_simps)

lemma energies_Nil: "energies [] = []"
  by (simp add: energies_def map_filter_simps)

lemma initiateMatch_energy_step:
  assumes "profile s = Some p" and "0 \<le> energy p"
  shows "\<exists>q. profile (initiateMatch env opponent s) = Some q \<and> 0 \<le> energy q \<and> energy q \<le> energy p"
  using assms by (simp add: profile_initiateMatch)

lemma energies_bounded:
  assumes "profile s = Some p" and "0 \<le> energy p"
  shows "sorted_wrt (\<lambda>e e'. e' \<le> e) (energies (initiateMatches calls s))
       \<and> (\<forall>e \<in> set (energies (initiateMatches calls s)). 0 \<le> e \<and> e \<le> energy p)
       \<and> length (energies (initiateMatches calls s)) = length calls"
  using assms
proof (induction calls arbitrary: s p)
  case Nil
  show ?case by (simp add: energies_Nil)
next
  case (Cons c calls)
  obtain env opponent where c: "c = (env, opponent)" by (cases c)
  from initiateMatch_energy_step [OF Cons.prems, of env opponent]
  obtain q where q: "profile (initiateMatch env opponent s) = Some q"
    and q0: "0 \<le> energy q" and qp: "energy q \<le> energy p" by blast
  from Cons.IH [OF q q0]
  have ih: "sorted_wrt (\<lambda>e e'. e' \<le> e) (energies (initiateMatches calls (initiateMatch env opponent s)))"
    "\<forall>e \<in> set (energies (initiateMatches calls (initiateMatch env opponent s))). 0 \<le> e \<and> e \<le> energy q"
    "length (energies (initiateMatches calls (initiateMatch env opponent s))) = length calls"
    by simp_all
  have e: "energies (initiateMatches (c # calls) s) =
             energy q # energies (initiateMatches calls (initiateMatch env opponent s))"
    by (simp add: c energies_Cons [OF q])
  show ?case
    unfolding e using ih q0 qp by auto
qed

section \<open>Claims\<close>

text \<open>
  Claim C1. As the code has it, a failure of the ledger submission is logged and blocks
  the local transition. When \<open>window.ethereum\<close> is present and the request is rejected,
  each of \<open>createProfile\<close>, \<open>claimDailyFortune\<close> and \<open>initiateMatch\<close> leaves the
  profile, the store and the last match result as they were before the call: the state
  after the call is the state before it with the request recorded as sent, one message
  written by \<open>console.error\<close>, and \<open>txPending\<close> reset to false. The request sits inside
  the \<open>try\<close> block, before the local update, so its rejection skips that update.
\<close>

theorem submission_failure_blocks_transition:
  assumes "ethereum env" and "requestFails env" and "address s = Some a" and "a \<noteq> []"
  shows "createProfile env el s =
           s\<lparr>sent := sent s @ [''0x5c28a3c2'' @ padStart 64 CHR ''0'' (toString16 (ELEMENTS_indexOf el))],
             errors := errors s @ [''Failed to create profile:''],
             txPending := False\<rparr>
       \<and> claimDailyFortune env s =
           (case profile s of
              None \<Rightarrow> s
            | Some p \<Rightarrow>
                s\<lparr>sent := sent s @ [''0x7c2f6e7d''],
                  errors := errors s @ [''Failed to claim fortune:''],
                  txPending := False\<rparr>)
       \<and> initiateMatch env opponent s =
           (case profile s of
              None \<Rightarrow> s
            | Some p \<Rightarrow>
                s\<lparr>sent := sent s @ [''0x1a2b3c4d'' @ padStart 64 CHR ''0'' (slice_from 2 opponent)],
                  errors := errors s @ [''Failed to initiate match:''],
                  txPending := False\<rparr>)"
proof (intro conjI)
  show "createProfile env el s =
           s\<lparr>sent := sent s @ [''0x5c28a3c2'' @ padStart 64 CHR ''0'' (toString16 (ELEMENTS_indexOf el))],
             errors := errors s @ [''Failed to create profile:''],
             txPending := False\<rparr>"
    using assms by (simp add: createProfile_def Let_def)
  show "claimDailyFortune env s =
           (case profile s of
              None \<Rightarrow> s
            | Some p \<Rightarrow>
                s\<lparr>sent := sent s @ [''0x7c2f6e7d''],
                  errors := errors s @ [''Failed to claim fortune:''],
                  txPending := False\<rparr>)"
    using assms by (simp add: claimDailyFortune_def Let_def split: option.splits)
  show "initiateMatch env opponent s =
           (case profile s of
              None \<Rightarrow> s
            | Some p \<Rightarrow>
                s\<lparr>sent := sent s @ [''0x1a2b3c4d'' @ padStart 64 CHR ''0'' (slice_from 2 opponent)],
                  errors := errors s @ [''Failed to initiate match:''],
                  txPending := False\<rparr>)"
    using assms by (simp add: initiateMatch_def Let_def split: option.splits)
qed

theorem submission_failure_blocks_transition_witness:
  "profile (createProfile (env_offline\<lparr>ethereum := True, requestFails := True\<rparr>) Fire newcomer_app) = None
   \<and> errors (createProfile (env_offline\<lparr>ethereum := True, requestFails := True\<rparr>) Fire newcomer_app)
       = [''Failed to create profile:'']
   \<and> profile (claimDailyFortune (env_offline\<lparr>ethereum := True, requestFails := True\<rparr>) veteran_app)
       = Some veteran
   \<and> lastMatchResult (initiateMatch (env_offline\<lparr>ethereum := True, requestFails := True\<rparr>)
         ''0x1111111111111111111111111111111111111111'' veteran_app) = None"
  using submission_failure_blocks_transition
      [of "env_offline\<lparr>ethereum := True, requestFails := True\<rparr>" newcomer_app "''0xabc''" Fire "[]"]
    submission_failure_blocks_transition
      [of "env_offline\<lparr>ethereum := True, requestFails := True\<rparr>" veteran_app "''0xabc''" Fire
        "''0x1111111111111111111111111111111111111111''"]
  by (simp add: example_defs newcomer_app_def)

text \<open>
  Claim C1 as stated, that the local update, the persistence and the recording of the
  match result happen on a failed submission exactly as on a successful one, is false
  for a newly connected player who creates a profile, and for a match of a player with a
  profile.
\<close>

theorem submission_failure_counterexample:
  "profile (createProfile (env_offline\<lparr>ethereum := True, requestFails := True\<rparr>) Fire newcomer_app)
     \<noteq> profile (createProfile (env_offline\<lparr>ethereum := True, requestFails := False\<rparr>) Fire newcomer_app)
   \<and> localStorage (createProfile (env_offline\<lparr>ethereum := True, requestFails := True\<rparr>) Fire newcomer_app)
        (storage_key ''0xabc'')
     \<noteq> localStorage (createProfile (env_offline\<lparr>ethereum := True, requestFails := False\<rparr>) Fire newcomer_app)
        (storage_key ''0xabc'')
   \<and> lastMatchResult (initiateMatch (env_offline\<lparr>ethereum := True, requestFails := True\<rparr>)
         ''0x1111111111111111111111111111111111111111'' veteran_app)
     \<noteq> lastMatchResult (initiateMatch (env_offline\<lparr>ethereum := True, requestFails := False\<rparr>)
         ''0x1111111111111111111111111111111111111111'' veteran_app)"
  by (simp add: createProfile_def initiateMatch_def Let_def example_defs newcomer_app_def)

text \<open>
  Claim C2. As the code has it, \<open>createProfile\<close> does not look at the current profile
  and signals nothing. Called with an address, and unless the submission fails, it
  replaces the profile in memory by a fresh one (the given element, a drawn lucky
  number, \<open>xp = 0\<close>, \<open>level = 1\<close>, \<open>energy = 100\<close>, \<open>winStreak = 0\<close>,
  \<open>lastFortuneTime = 0\<close>, \<open>exists = true\<close>) whatever profile was there, and, unless the
  write fails, it stores that profile and logs no error. A second creation is prevented
  by the view only: for a profile with \<open>exists = true\<close> the view effect never resolves
  to \<open>create\<close>, and outside that view the create button, the only caller of
  \<open>createProfile\<close>, does nothing.
\<close>

theorem createProfile_replaces_profile:
  assumes "address s = Some a" and "a \<noteq> []" and "\<not> (ethereum env \<and> requestFails env)"
  shows "profile (createProfile env el s) =
           Some \<lparr>element = el, luckyNumber = \<lfloor>random1 env * 100\<rfloor> + 1, xp = 0, level = 1,
                 energy = 100, winStreak = 0, lastFortuneTime = 0, exists = True\<rparr>
       \<and> (\<not> setItemFails env \<longrightarrow>
            localStorage (createProfile env el s) (storage_key a) = profile (createProfile env el s)
            \<and> errors (createProfile env el s) = errors s)
       \<and> (profile_exists (profile s) \<longrightarrow>
            view (viewEffect s) \<noteq> create
            \<and> createButton_click env' (viewEffect s) = viewEffect s)"
proof (intro conjI impI)
  show "profile (createProfile env el s) =
           Some \<lparr>element = el, luckyNumber = \<lfloor>random1 env * 100\<rfloor> + 1, xp = 0, level = 1,
                 energy = 100, winStreak = 0, lastFortuneTime = 0, exists = True\<rparr>"
    using assms by (auto simp add: profile_createProfile no_address_def)
next
  assume "\<not> setItemFails env"
  then show "localStorage (createProfile env el s) (storage_key a) = profile (createProfile env el s)"
    using assms by (cases "ethereum env") (simp_all add: createProfile_def Let_def)
next
  assume "\<not> setItemFails env"
  then show "errors (createProfile env el s) = errors s"
    using assms by (cases "ethereum env") (simp_all add: createProfile_def Let_def)
next
  assume e: "profile_exists (profile s)"
  then show v: "view (viewEffect s) \<noteq> create"
    by (auto simp add: viewEffect_def split: option.splits)
  then show "createButton_click env' (viewEffect s) = viewEffect s"
    by (simp add: createButton_click_def)
qed

theorem createProfile_replaces_profile_witness:
  "profile (createProfile env_offline Fire veteran_app) =
     Some \<lparr>element = Fire, luckyNumber = 76, xp = 0, level = 1, energy = 100, winStreak = 0,
           lastFortuneTime = 0, exists = True\<rparr>
   \<and> localStorage (createProfile env_offline Fire veteran_app) (storage_key ''0xabc'') =
     Some \<lparr>element = Fire, luckyNumber = 76, xp = 0, level = 1, energy = 100, winStreak = 0,
           lastFortuneTime = 0, exists = True\<rparr>
   \<and> errors (createProfile env_offline Fire veteran_app) = []
   \<and> view (viewEffect veteran_app) = dashboard
   \<and> createButton_click env_offline (viewEffect veteran_app) = viewEffect veteran_app"
proof -
  have v: "view (viewEffect veteran_app) = dashboard"
    by (simp add: viewEffect_def example_defs no_address_def profile_exists_def)
  have e: "profile_exists (profile veteran_app)"
    by (simp add: example_defs profile_exists_def)
  from createProfile_replaces_profile [of veteran_app "''0xabc''" env_offline Fire env_offline] e v
  show ?thesis by (simp add: example_defs)
qed

text \<open>
  Claim C2 as stated, that \<open>createProfile\<close> on a profile with \<open>exists = true\<close> mutates
  nothing, is false: the call resets \<open>xp\<close> from 90 to 0 and \<open>energy\<close> from 50 to 100,
  writes the store, and logs no error.
\<close>

theorem createProfile_overwrites_counterexample:
  "profile veteran_app = Some veteran
   \<and> exists veteran
   \<and> profile (createProfile env_offline Fire veteran_app) \<noteq> profile veteran_app
   \<and> map_option xp (profile veteran_app) = Some 90
   \<and> map_option xp (profile (createProfile env_offline Fire veteran_app)) = Some 0
   \<and> map_option energy (profile veteran_app) = Some 50
   \<and> map_option energy (profile (createProfile env_offline Fire veteran_app)) = Some 100
   \<and> localStorage veteran_app (storage_key ''0xabc'') = None
   \<and> localStorage (createProfile env_offline Fire veteran_app) (storage_key ''0xabc'') \<noteq> None
   \<and> errors (createProfile env_offline Fire veteran_app) = errors veteran_app"
  by (simp add: profile_createProfile no_address_def)
     (simp add: example_defs createProfile_def Let_def)

text \<open>
  Claim C3. As the code has it, \<open>claimDailyFortune\<close> does not check the cooldown; the
  Daily Fortune button does. The button is disabled while \<open>canClaimFortune\<close> is false, so
  when \<open>now - lastFortuneTime \<le> 24h\<close> at the render, a click runs no handler and changes
  no state. After any successful claim \<open>lastFortuneTime\<close> is the current time, so
  \<open>canClaimFortune\<close> is false immediately afterward, and stays false at any time up to
  24 hours later.
\<close>

theorem fortune_gate_and_cooldown:
  "(profile s = Some p \<and> t - lastFortuneTime p \<le> 24 * 60 * 60 * 1000
      \<longrightarrow> fortuneButton_click t env s = s)
   \<and> (address s = Some a \<and> a \<noteq> [] \<and> profile s = Some p
        \<and> \<not> (ethereum env \<and> requestFails env)
      \<longrightarrow> map_option lastFortuneTime (profile (claimDailyFortune env s)) = Some (now env)
          \<and> \<not> canClaimFortune (now env) (profile (claimDailyFortune env s))
          \<and> (t' - now env \<le> 24 * 60 * 60 * 1000
               \<longrightarrow> \<not> canClaimFortune t' (profile (claimDailyFortune env s))))"
  by (auto simp add: fortuneButton_click_def canClaimFortune_def profile_claimDailyFortune
      no_address_def)

theorem fortune_gate_and_cooldown_witness:
  "fortuneButton_click 90000000 env_offline veteran_app = veteran_app
   \<and> \<not> canClaimFortune 90000000 (profile (claimDailyFortune env_offline veteran_app))
   \<and> \<not> canClaimFortune 90000500 (profile (claimDailyFortune env_offline veteran_app))"
  using fortune_gate_and_cooldown
      [of veteran_app veteran 90000000 env_offline "''0xabc''" 90000500]
  by (simp add: example_defs)

text \<open>
  Claim C3 as stated, that \<open>claimDailyFortune\<close> invoked within the cooldown is rejected
  and mutates no state, is false of the function itself: called 1000 ms after the last
  claim it raises \<open>xp\<close> from 90 to 137.
\<close>

theorem claimDailyFortune_no_cooldown_counterexample:
  "now env_offline - lastFortuneTime veteran \<le> 24 * 60 * 60 * 1000
   \<and> profile veteran_app = Some veteran
   \<and> profile (claimDailyFortune env_offline veteran_app) \<noteq> profile veteran_app
   \<and> map_option xp (profile veteran_app) = Some 90
   \<and> map_option xp (profile (claimDailyFortune env_offline veteran_app)) = Some 137"
  by (simp add: profile_claimDailyFortune no_address_def example_defs)

text \<open>
  Claim C4. As the code has it, a failure of \<open>localStorage.setItem\<close> is caught and
  logged, the store keeps its previous content and \<open>txPending\<close> is reset to false; but
  the state in memory is not reverted. \<open>setProfile\<close> (and, for \<open>initiateMatch\<close>,
  \<open>setLastMatchResult\<close>) run before the write, so the state after the call is the state
  before it with the updated profile (and the match result), the request recorded as
  sent when a provider is present, one more logged error and \<open>txPending\<close> false. Apart
  from the store and the logged error it is the state after a call whose write succeeds.
\<close>

theorem store_failure_keeps_memory_update:
  assumes "setItemFails env" and "\<not> (ethereum env \<and> requestFails env)"
    and "address s = Some a" and "a \<noteq> []"
  shows "createProfile env el s =
           s\<lparr>profile :=
               Some \<lparr>element = el, luckyNumber = \<lfloor>random1 env * 100\<rfloor> + 1, xp = 0, level = 1,
                     energy = 100, winStreak = 0, lastFortuneTime = 0, exists = True\<rparr>,
             sent :=
               (if ethereum env
                then sent s @ [''0x5c28a3c2'' @ padStart 64 CHR ''0'' (toString16 (ELEMENTS_indexOf el))]
                else sent s),
             errors := errors s @ [''Failed to create profile:''],
             txPending := False\<rparr>
       \<and> claimDailyFortune env s =
           (case profile s of
              None \<Rightarrow> s
            | Some p \<Rightarrow>
                s\<lparr>profile :=
                    Some (p\<lparr>xp := xp p + (\<lfloor>random1 env * 50\<rfloor> + 10),
                            level := (xp p + (\<lfloor>random1 env * 50\<rfloor> + 10)) div 100 + 1,
                            lastFortuneTime := now env\<rparr>),
                  sent := (if ethereum env then sent s @ [''0x7c2f6e7d''] else sent s),
                  errors := errors s @ [''Failed to claim fortune:''],
                  txPending := False\<rparr>)
       \<and> initiateMatch env opponent s =
           (case profile s of
              None \<Rightarrow> s
            | Some p \<Rightarrow>
                s\<lparr>lastMatchResult :=
                    Some \<lparr>winner = (if random2 env > 1 / 2 then a else opponent),
                          timestamp = now env,
                          player1Element = element p,
                          player2Element = ELEMENTS_at \<lfloor>random1 env * 4\<rfloor>\<rparr>,
                  profile :=
                    Some (p\<lparr>xp := xp p + (if random2 env > 1 / 2 then 25 else 5),
                            level := (xp p + (if random2 env > 1 / 2 then 25 else 5)) div 100 + 1,
                            winStreak := (if random2 env > 1 / 2 then winStreak p + 1 else 0),
                            energy := max 0 (energy p - 10)\<rparr>),
                  sent :=
                    (if ethereum env
                     then sent s @ [''0x1a2b3c4d'' @ padStart 64 CHR ''0'' (slice_from 2 opponent)]
                     else sent s),
                  errors := errors s @ [''Failed to initiate match:''],
                  txPending := False\<rparr>)
       \<and> createProfile env el s =
           (createProfile (env\<lparr>setItemFails := False\<rparr>) el s)
             \<lparr>localStorage := localStorage s,
              errors := errors s @ [''Failed to create profile:'']\<rparr>
       \<and> claimDailyFortune env s =
           (case profile s of
              None \<Rightarrow> s
            | Some p \<Rightarrow>
                (claimDailyFortune (env\<lparr>setItemFails := False\<rparr>) s)
                  \<lparr>localStorage := localStorage s,
                   errors := errors s @ [''Failed to claim fortune:'']\<rparr>)
       \<and> initiateMatch env opponent s =
           (case profile s of
              None \<Rightarrow> s
            | Some p \<Rightarrow>
                (initiateMatch (env\<lparr>setItemFails := False\<rparr>) opponent s)
                  \<lparr>localStorage := localStorage s,
                   errors := errors s @ [''Failed to initiate match:'']\<rparr>)"
proof -
  have ok: "ethereum env \<Longrightarrow> \<not> requestFails env"
    using assms(2) by simp
  have c1: "createProfile env el s =
           s\<lparr>profile :=
               Some \<lparr>element = el, luckyNumber = \<lfloor>random1 env * 100\<rfloor> + 1, xp = 0, level = 1,
                     energy = 100, winStreak = 0, lastFortuneTime = 0, exists = True\<rparr>,
             sent :=
               (if ethereum env
                then sent s @ [''0x5c28a3c2'' @ padStart 64 CHR ''0'' (toString16 (ELEMENTS_indexOf el))]
                else sent s),
             errors := errors s @ [''Failed to create profile:''],
             txPending := False\<rparr>"
    using assms(1,3,4) ok by (cases "ethereum env") (simp_all add: createProfile_def Let_def)
  have f1: "claimDailyFortune env s =
           (case profile s of
              None \<Rightarrow> s
            | Some p \<Rightarrow>
                s\<lparr>profile :=
                    Some (p\<lparr>xp := xp p + (\<lfloor>random1 env * 50\<rfloor> + 10),
                            level := (xp p + (\<lfloor>random1 env * 50\<rfloor> + 10)) div 100 + 1,
                            lastFortuneTime := now env\<rparr>),
                  sent := (if ethereum env then sent s @ [''0x7c2f6e7d''] else sent s),
                  errors := errors s @ [''Failed to claim fortune:''],
                  txPending := False\<rparr>)"
    using assms(1,3,4) ok
    by (cases "ethereum env")
       (simp_all add: claimDailyFortune_def Let_def js_floor_div100_eq split: option.splits)
  have m1: "initiateMatch env opponent s =
           (case profile s of
              None \<Rightarrow> s
            | Some p \<Rightarrow>
                s\<lparr>lastMatchResult :=
                    Some \<lparr>winner = (if random2 env > 1 / 2 then a else opponent),
                          timestamp = now env,
                          player1Element = element p,
                          player2Element = ELEMENTS_at \<lfloor>random1 env * 4\<rfloor>\<rparr>,
                  profile :=
                    Some (p\<lparr>xp := xp p + (if random2 env > 1 / 2 then 25 else 5),
                            level := (xp p + (if random2 env > 1 / 2 then 25 else 5)) div 100 + 1,
                            winStreak := (if random2 env > 1 / 2 then winStreak p + 1 else 0),
                            energy := max 0 (energy p - 10)\<rparr>),
                  sent :=
                    (if ethereum env
                     then sent s @ [''0x1a2b3c4d'' @ padStart 64 CHR ''0'' (slice_from 2 opponent)]
                     else sent s),
                  errors := errors s @ [''Failed to initiate match:''],
                  txPending := False\<rparr>)"
    using assms(1,3,4) ok
    by (cases "ethereum env")
       (simp_all add: initiateMatch_def Let_def js_floor_div100_eq split: option.splits)
  have c: "createProfile env el s =
           (createProfile (env\<lparr>setItemFails := False\<rparr>) el s)
             \<lparr>localStorage := localStorage s,
              errors := errors s @ [''Failed to create profile:'']\<rparr>"
    using assms(1,3,4) ok by (cases "ethereum env") (simp_all add: createProfile_def Let_def)
  have f: "claimDailyFortune env s =
           (case profile s of
              None \<Rightarrow> s
            | Some p \<Rightarrow>
                (claimDailyFortune (env\<lparr>setItemFails := False\<rparr>) s)
                  \<lparr>localStorage := localStorage s,
                   errors := errors s @ [''Failed to claim fortune:'']\<rparr>)"
    using assms(1,3,4) ok
    by (cases "ethereum env")
       (simp_all add: claimDailyFortune_def Let_def split: option.splits)
  have m: "initiateMatch env opponent s =
           (case profile s of
              None \<Rightarrow> s
            | Some p \<Rightarrow>
                (initiateMatch (env\<lparr>setItemFails := False\<rparr>) opponent s)
                  \<lparr>localStorage := localStorage s,
                   errors := errors s @ [''Failed to initiate match:'']\<rparr>)"
    using assms(1,3,4) ok
    by (cases "ethereum env")
       (simp_all add: initiateMatch_def Let_def split: option.splits)
  from c1 f1 m1 c f m show ?thesis by blast
qed

theorem store_failure_keeps_memory_update_witness:
  "claimDailyFortune (env_offline\<lparr>setItemFails := True\<rparr>) (veteran_app\<lparr>txPending := True\<rparr>) =
     veteran_app\<lparr>profile := Some (veteran\<lparr>xp := 137, level := 2, lastFortuneTime := 90000000\<rparr>),
                 errors := [''Failed to claim fortune:''],
                 txPending := False\<rparr>
   \<and> txPending (claimDailyFortune (env_offline\<lparr>setItemFails := True\<rparr>) veteran_app) = False
   \<and> txPending (createProfile (env_offline\<lparr>setItemFails := True\<rparr>) Fire veteran_app) = False
   \<and> txPending (initiateMatch (env_offline\<lparr>setItemFails := True\<rparr>)
         ''0x1111111111111111111111111111111111111111'' veteran_app) = False
   \<and> localStorage (initiateMatch (env_offline\<lparr>setItemFails := True\<rparr>)
         ''0x1111111111111111111111111111111111111111'' veteran_app) = localStorage veteran_app
   \<and> map_option energy (profile (initiateMatch (env_offline\<lparr>setItemFails := True\<rparr>)
         ''0x1111111111111111111111111111111111111111'' veteran_app)) = Some 40"
  using store_failure_keeps_memory_update
      [of "env_offline\<lparr>setItemFails := True\<rparr>" "veteran_app\<lparr>txPending := True\<rparr>" "''0xabc''" Fire "[]"]
    store_failure_keeps_memory_update
      [of "env_offline\<lparr>setItemFails := True\<rparr>" veteran_app "''0xabc''" Fire
         "''0x1111111111111111111111111111111111111111''"]
  by (simp add: example_defs)

text \<open>
  Claim C4 as stated, that after a failed write the profile in memory equals the profile
  from before the operation, is false: the claimed fortune stays in memory (\<open>xp\<close> 137
  instead of 90) while the store holds nothing.
\<close>

theorem store_failure_counterexample:
  "profile (claimDailyFortune (env_offline\<lparr>setItemFails := True\<rparr>) veteran_app)
     \<noteq> profile veteran_app
   \<and> map_option xp (profile (claimDailyFortune (env_offline\<lparr>setItemFails := True\<rparr>) veteran_app))
       = Some 137
   \<and> map_option xp (profile veteran_app) = Some 90
   \<and> localStorage (claimDailyFortune (env_offline\<lparr>setItemFails := True\<rparr>) veteran_app)
        (storage_key ''0xabc'') = None"
  by (simp add: profile_claimDailyFortune)
     (simp add: example_defs claimDailyFortune_def Let_def no_address_def)

text \<open>
  Claim C5. Whenever one of the three operations \<open>createProfile\<close>,
  \<open>claimDailyFortune\<close>, \<open>initiateMatch\<close> produces or changes the profile, the resulting
  profile has \<open>level = floor (xp / 100) + 1\<close>: the update that changes \<open>xp\<close> sets
  \<open>level\<close> from the new \<open>xp\<close> in the same record update.
\<close>

theorem level_follows_xp:
  assumes "s' = createProfile env el s \<or> s' = claimDailyFortune env s
           \<or> s' = initiateMatch env opponent s"
    and "profile s' = Some q" and "profile s' \<noteq> profile s"
  shows "level q = xp q div 100 + 1"
proof -
  consider (c) "s' = createProfile env el s" | (f) "s' = claimDailyFortune env s"
    | (m) "s' = initiateMatch env opponent s"
    using assms(1) by blast
  then show ?thesis
  proof cases
    case c
    with assms(2,3) show ?thesis
      by (simp add: profile_createProfile split: if_splits) (use assms(2) in auto)
  next
    case f
    with assms(2,3) show ?thesis
      by (cases "profile s") (auto simp add: profile_claimDailyFortune split: if_splits)
  next
    case m
    with assms(2,3) show ?thesis
      by (cases "profile s") (auto simp add: profile_initiateMatch split: if_splits)
  qed
qed

theorem level_follows_xp_witness:
  "profile (claimDailyFortune env_offline veteran_app) =
     Some (veteran\<lparr>xp := 137, level := 2, lastFortuneTime := 90000000\<rparr>)
   \<and> profile (claimDailyFortune env_offline veteran_app) \<noteq> profile veteran_app
   \<and> level (veteran\<lparr>xp := 137, level := 2, lastFortuneTime := 90000000\<rparr>) =
       xp (veteran\<lparr>xp := 137, level := 2, lastFortuneTime := 90000000\<rparr>) div 100 + 1"
proof -
  have p: "profile (claimDailyFortune env_offline veteran_app) =
     Some (veteran\<lparr>xp := 137, level := 2, lastFortuneTime := 90000000\<rparr>)"
    by (simp add: profile_claimDailyFortune example_defs no_address_def)
  have n: "profile (claimDailyFortune env_offline veteran_app) \<noteq> profile veteran_app"
    unfolding p by (simp add: example_defs)
  from level_follows_xp [of "claimDailyFortune env_offline veteran_app" env_offline Fire
      veteran_app "[]", OF _ p n] p n
  show ?thesis by blast
qed

text \<open>
  Claim C6. Along every sequence of \<open>initiateMatch\<close> calls starting from a profile
  whose energy is in the range of the data model (not negative), the energy never
  increases from one call to the next and is never negative; every call yields one
  energy value. A call that completes takes 10 from the energy, and yields 0 where that
  would go below 0.
\<close>

theorem energy_never_increases:
  assumes "profile s = Some p" and "0 \<le> energy p"
  shows "sorted_wrt (\<lambda>e e'. e' \<le> e) (energy p # energies (initiateMatches calls s))
       \<and> (\<forall>e \<in> set (energy p # energies (initiateMatches calls s)). 0 \<le> e)
       \<and> length (energies (initiateMatches calls s)) = length calls
       \<and> (address s = Some a \<and> a \<noteq> [] \<and> \<not> (ethereum env \<and> requestFails env) \<longrightarrow>
            map_option energy (profile (initiateMatch env opponent s)) =
              Some (if 10 \<le> energy p then energy p - 10 else 0))"
proof -
  have last: "address s = Some a \<and> a \<noteq> [] \<and> \<not> (ethereum env \<and> requestFails env) \<longrightarrow>
            map_option energy (profile (initiateMatch env opponent s)) =
              Some (if 10 \<le> energy p then energy p - 10 else 0)"
    using assms(1) by (auto simp add: profile_initiateMatch no_address_def)
  from energies_bounded [OF assms, of calls] assms(2) last
  show ?thesis by auto
qed

theorem energy_never_increases_witness:
  "energy veteran # energies (initiateMatches
       [(env_offline, ''0x1111111111111111111111111111111111111111''),
        (env_offline\<lparr>ethereum := True, requestFails := True\<rparr>, ''0x1111111111111111111111111111111111111111''),
        (env_offline\<lparr>random2 := 3 / 4\<rparr>, ''0x1111111111111111111111111111111111111111'')]
       veteran_app) = [50, 40, 40, 30]
   \<and> sorted_wrt (\<lambda>e e'. e' \<le> e) [50, 40, 40, 30 :: int]
   \<and> map_option energy (profile (initiateMatch env_offline ''0x1111111111111111111111111111111111111111''
        (veteran_app\<lparr>profile := Some (veteran\<lparr>energy := 5\<rparr>)\<rparr>))) = Some 0"
proof -
  have e: "energy veteran # energies (initiateMatches
       [(env_offline, ''0x1111111111111111111111111111111111111111''),
        (env_offline\<lparr>ethereum := True, requestFails := True\<rparr>, ''0x1111111111111111111111111111111111111111''),
        (env_offline\<lparr>random2 := 3 / 4\<rparr>, ''0x1111111111111111111111111111111111111111'')]
       veteran_app) = [50, 40, 40, 30]"
    by (simp add: energies_def map_filter_simps profile_initiateMatch address_initiateMatch
        no_address_def example_defs)
  have p: "profile veteran_app = Some veteran" by (simp add: example_defs)
  have n: "0 \<le> energy veteran" by (simp add: example_defs)
  have p5: "profile (veteran_app\<lparr>profile := Some (veteran\<lparr>energy := 5\<rparr>)\<rparr>) = Some (veteran\<lparr>energy := 5\<rparr>)"
    by simp
  have n5: "0 \<le> energy (veteran\<lparr>energy := 5\<rparr>)" by simp
  have a5: "address (veteran_app\<lparr>profile := Some (veteran\<lparr>energy := 5\<rparr>)\<rparr>) = Some ''0xabc''"
    by (simp add: example_defs)
  have o: "\<not> (ethereum env_offline \<and> requestFails env_offline)" by (simp add: example_defs)
  from energy_never_increases [OF p n, where calls =
       "[(env_offline, ''0x1111111111111111111111111111111111111111''),
        (env_offline\<lparr>ethereum := True, requestFails := True\<rparr>, ''0x1111111111111111111111111111111111111111''),
        (env_offline\<lparr>random2 := 3 / 4\<rparr>, ''0x1111111111111111111111111111111111111111'')]"]
  have s: "sorted_wrt (\<lambda>e e'. e' \<le> e) [50, 40, 40, 30 :: int]"
    unfolding e by blast
  from energy_never_increases [OF p5 n5, where a = "''0xabc''" and env = env_offline
      and calls = "[]" and opponent = "''0x1111111111111111111111111111111111111111''"] a5 o
  have c: "map_option energy (profile (initiateMatch env_offline ''0x1111111111111111111111111111111111111111''
        (veteran_app\<lparr>profile := Some (veteran\<lparr>energy := 5\<rparr>)\<rparr>))) = Some 0"
    by simp
  from e s c show ?thesis by blast
qed

text \<open>
  Claim C7. A match that completes (an address and a profile are present and the
  submission does not fail) and resolves as a win adds 25 to \<open>xp\<close> and 1 to
  \<open>winStreak\<close>; as a loss it adds 5 to \<open>xp\<close> and resets \<open>winStreak\<close> to 0. In both
  cases \<open>level\<close> is recomputed from the new \<open>xp\<close>, \<open>energy\<close> is
  \<open>max 0 (energy - 10)\<close>, and a \<open>MatchResult\<close> is recorded. The witness is the scenario
  of a profile with \<open>energy = 50\<close> and \<open>winStreak = 3\<close>.
\<close>

theorem match_outcome:
  assumes "address s = Some a" and "a \<noteq> []" and "profile s = Some p"
    and "\<not> (ethereum env \<and> requestFails env)"
  shows "(random2 env > 1 / 2 \<longrightarrow>
            profile (initiateMatch env opponent s) =
              Some (p\<lparr>xp := xp p + 25, level := (xp p + 25) div 100 + 1,
                      winStreak := winStreak p + 1, energy := max 0 (energy p - 10)\<rparr>)
            \<and> map_option winner (lastMatchResult (initiateMatch env opponent s)) = Some a)
       \<and> (\<not> random2 env > 1 / 2 \<longrightarrow>
            profile (initiateMatch env opponent s) =
              Some (p\<lparr>xp := xp p + 5, level := (xp p + 5) div 100 + 1,
                      winStreak := 0, energy := max 0 (energy p - 10)\<rparr>)
            \<and> map_option winner (lastMatchResult (initiateMatch env opponent s)) = Some opponent)
       \<and> lastMatchResult (initiateMatch env opponent s) =
            Some \<lparr>winner = (if random2 env > 1 / 2 then a else opponent),
                  timestamp = now env,
                  player1Element = element p,
                  player2Element = ELEMENTS_at \<lfloor>random1 env * 4\<rfloor>\<rparr>"
  using assms by (auto simp add: initiateMatch_def Let_def js_floor_div100_eq)

theorem match_outcome_witness:
  "profile (initiateMatch env_offline ''0x1111111111111111111111111111111111111111'' veteran_app) =
     Some (veteran\<lparr>xp := 95, level := 1, winStreak := 0, energy := 40\<rparr>)
   \<and> profile (initiateMatch (env_offline\<lparr>random2 := 3 / 4\<rparr>)
                 ''0x1111111111111111111111111111111111111111'' veteran_app) =
     Some (veteran\<lparr>xp := 115, level := 2, winStreak := 4, energy := 40\<rparr>)
   \<and> lastMatchResult (initiateMatch env_offline ''0x1111111111111111111111111111111111111111'' veteran_app) =
     Some \<lparr>winner = ''0x1111111111111111111111111111111111111111'', timestamp = 90000000,
           player1Element = Water, player2Element = Some Earth\<rparr>"
  using match_outcome [of veteran_app "''0xabc''" veteran env_offline
      "''0x1111111111111111111111111111111111111111''"]
    match_outcome [of veteran_app "''0xabc''" veteran "env_offline\<lparr>random2 := 3 / 4\<rparr>"
      "''0x1111111111111111111111111111111111111111''"]
  by (simp add: example_defs ELEMENTS_at_def ELEMENTS_def)

text \<open>
  Claim C8. The view effect follows the precedence: without an address the view is
  \<open>connect\<close> whatever the other inputs are; with an address and while loading it is
  \<open>connect\<close>; with an address, not loading and with no profile (or one whose \<open>exists\<close>
  is false) it is \<open>create\<close>. An address that is set is a non-empty string, as every
  account address is.
\<close>

theorem view_precedence:
  "(address s = None \<longrightarrow> view (viewEffect s) = connect)
   \<and> (address s = Some a \<and> a \<noteq> [] \<and> isLoading s \<longrightarrow> view (viewEffect s) = connect)
   \<and> (address s = Some a \<and> a \<noteq> [] \<and> \<not> isLoading s \<and> \<not> profile_exists (profile s)
        \<longrightarrow> view (viewEffect s) = create)"
  by (simp add: viewEffect_def no_address_def)

theorem view_precedence_witness:
  "view (viewEffect (veteran_app\<lparr>address := None\<rparr>)) = connect
   \<and> view (viewEffect (veteran_app\<lparr>isLoading := True\<rparr>)) = connect
   \<and> view (viewEffect (veteran_app\<lparr>profile := None\<rparr>)) = create
   \<and> view (viewEffect (veteran_app\<lparr>profile := Some (veteran\<lparr>exists := False\<rparr>)\<rparr>)) = create"
  using view_precedence [of "veteran_app\<lparr>address := None\<rparr>" "''0xabc''"]
    view_precedence [of "veteran_app\<lparr>isLoading := True\<rparr>" "''0xabc''"]
    view_precedence [of "veteran_app\<lparr>profile := None\<rparr>" "''0xabc''"]
    view_precedence [of "veteran_app\<lparr>profile := Some (veteran\<lparr>exists := False\<rparr>)\<rparr>" "''0xabc''"]
  by (simp add: example_defs profile_exists_def)

text \<open>
  Claim C9. As the code has it, \<open>initiateMatch\<close> does not check the format of the
  opponent; \<open>handleMatch\<close>, its only caller, does. For an opponent string that does not
  match \<open>0x\<close> followed by exactly 40 hex digits, \<open>handleMatch\<close> returns without calling
  \<open>initiateMatch\<close>, and the match button is disabled: nothing is submitted, the profile
  is unchanged, no match result is produced, and no error is signalled or logged. The
  witness covers \<open>not-an-address\<close> and a string of 39 hex digits.
\<close>

theorem malformed_opponent_ignored:
  assumes "\<not> matchesAddress (opponentAddress s)"
  shows "handleMatch env s = s \<and> matchButton_click env s = s"
  using assms by (simp add: handleMatch_def matchButton_click_def split: option.splits)

theorem malformed_opponent_ignored_witness:
  "\<not> matchesAddress ''not-an-address''
   \<and> \<not> matchesAddress ''0x111111111111111111111111111111111111111''
   \<and> handleMatch env_offline (veteran_app\<lparr>opponentAddress := ''not-an-address''\<rparr>)
       = veteran_app\<lparr>opponentAddress := ''not-an-address''\<rparr>
   \<and> handleMatch env_offline
         (veteran_app\<lparr>opponentAddress := ''0x111111111111111111111111111111111111111''\<rparr>)
       = veteran_app\<lparr>opponentAddress := ''0x111111111111111111111111111111111111111''\<rparr>
   \<and> matchButton_click env_offline (veteran_app\<lparr>opponentAddress := ''not-an-address''\<rparr>)
       = veteran_app\<lparr>opponentAddress := ''not-an-address''\<rparr>"
proof -
  have a: "\<not> matchesAddress ''not-an-address''" by (simp add: matchesAddress_def)
  have b: "\<not> matchesAddress ''0x111111111111111111111111111111111111111''"
    by (simp add: matchesAddress_def)
  from a b
    malformed_opponent_ignored [of "veteran_app\<lparr>opponentAddress := ''not-an-address''\<rparr>" env_offline]
    malformed_opponent_ignored
      [of "veteran_app\<lparr>opponentAddress := ''0x111111111111111111111111111111111111111''\<rparr>"
        env_offline]
  show ?thesis by simp
qed

text \<open>
  Claim C9 as stated, that \<open>initiateMatch\<close> invoked with a malformed opponent is
  rejected before any submission and changes nothing, is false of the function itself:
  called with \<open>not-an-address\<close> it submits a transaction, plays the match, updates the
  profile and records a match result.
\<close>

theorem initiateMatch_unvalidated_counterexample:
  "\<not> matchesAddress ''not-an-address''
   \<and> initiateMatch (env_offline\<lparr>ethereum := True\<rparr>) ''not-an-address'' veteran_app \<noteq> veteran_app
   \<and> sent (initiateMatch (env_offline\<lparr>ethereum := True\<rparr>) ''not-an-address'' veteran_app) \<noteq> []
   \<and> profile (initiateMatch (env_offline\<lparr>ethereum := True\<rparr>) ''not-an-address'' veteran_app)
       = Some (veteran\<lparr>xp := 95, level := 1, winStreak := 0, energy := 40\<rparr>)
   \<and> lastMatchResult (initiateMatch (env_offline\<lparr>ethereum := True\<rparr>) ''not-an-address'' veteran_app)
       = Some \<lparr>winner = ''not-an-address'', timestamp = 90000000, player1Element = Water,
               player2Element = Some Earth\<rparr>"
proof -
  have p: "profile (initiateMatch (env_offline\<lparr>ethereum := True\<rparr>) ''not-an-address'' veteran_app)
       = Some (veteran\<lparr>xp := 95, level := 1, winStreak := 0, energy := 40\<rparr>)"
    by (simp add: profile_initiateMatch no_address_def example_defs)
  have r: "lastMatchResult (initiateMatch (env_offline\<lparr>ethereum := True\<rparr>) ''not-an-address'' veteran_app)
       = Some \<lparr>winner = ''not-an-address'', timestamp = 90000000, player1Element = Water,
               player2Element = Some Earth\<rparr>"
    by (simp add: initiateMatch_def Let_def example_defs ELEMENTS_at_def ELEMENTS_def)
  have s: "sent (initiateMatch (env_offline\<lparr>ethereum := True\<rparr>) ''not-an-address'' veteran_app) \<noteq> []"
    by (simp add: initiateMatch_def Let_def example_defs)
  have v: "sent veteran_app = []" by (simp add: example_defs)
  have n: "initiateMatch (env_offline\<lparr>ethereum := True\<rparr>) ''not-an-address'' veteran_app \<noteq> veteran_app"
    using s v by metis
  have a: "\<not> matchesAddress ''not-an-address''" by (simp add: matchesAddress_def)
  from a n s p r show ?thesis by blast
qed

text \<open>
  Claim C10. No event of the application assigns the view \<open>match\<close>: from a state whose
  view is not \<open>match\<close> every event leads to a state whose view is not \<open>match\<close>. Hence
  the branch of the view effect that assigns \<open>battle\<close>, which needs the previous view to
  be \<open>match\<close>, never fires, and after every sequence of events from the initial render
  the view is neither \<open>match\<close> nor \<open>battle\<close>. In the witness a player connects, creates
  a profile and plays a match: the match result is recorded and the view stays
  \<open>dashboard\<close>.
\<close>

theorem view_never_match_or_battle:
  "(view s \<noteq> match \<longrightarrow> view (dispatch e s) \<noteq> match)
   \<and> view (run es (initial store)) \<noteq> match
   \<and> view (run es (initial store)) \<noteq> battle"
proof -
  have "view (initial store) \<in> {connect, create, dashboard}"
    by (simp add: initial_def)
  then have "view (run es (initial store)) \<in> {connect, create, dashboard}"
    by (rule run_keeps_view_set)
  then show ?thesis
    using dispatch_never_assigns_match [of s e] by auto
qed

theorem view_never_match_or_battle_witness:
  "view (run session (initial Map.empty)) = dashboard
   \<and> lastMatchResult (run session (initial Map.empty)) \<noteq> None
   \<and> view (run session (initial Map.empty)) \<noteq> match
   \<and> view (run session (initial Map.empty)) \<noteq> battle
   \<and> view (initial Map.empty) \<noteq> match
   \<and> view (dispatch ViewEffect (initial Map.empty)) \<noteq> match"
proof -
  have v: "view (initial Map.empty) \<noteq> match" by (simp add: initial_def)
  have d: "view (run session (initial Map.empty)) = dashboard"
    by (simp add: session_trace)
  have r: "lastMatchResult (run session (initial Map.empty)) \<noteq> None"
    by (simp add: session_trace)
  from v d r
    view_never_match_or_battle [of "initial Map.empty" ViewEffect session Map.empty]
  show ?thesis by simp
qed

end
